theory Spec2Isabelle
  imports Complex_Main
begin

section \<open>The Josephson junction simulator\<close>

text \<open>
  A shallow embedding of \<^verbatim>\<open>src/josephon.py\<close>: the class \<^verbatim>\<open>JosephsonJunction\<close>, its
  constructor and its three methods \<^verbatim>\<open>dc_characteristic\<close>, \<^verbatim>\<open>iv_curve\<close> and
  \<^verbatim>\<open>phase_dynamics\<close>.

  Python's floats are idealised as the real numbers: rounding, infinities and NaN are
  outside the model. Where the source divides by \<^verbatim>\<open>self.Rn\<close>, numpy yields an infinity
  or NaN (with a warning, not an exception) for \<^verbatim>\<open>Rn = 0\<close>; the value of the model has
  no meaning there.
\<close>

subsection \<open>Parameters\<close>

record JosephsonJunction =
  Ic :: real
  Rn :: real
  C :: real
  Vn :: real
  phi0 :: real

text \<open>
  \<^verbatim>\<open>__init__(self, Ic=1.0, Rn=1.0, C=1.0, Vn=0.001)\<close>: the arguments are in
  micro-amperes, ohms, pico-farads and micro-volts.
\<close>

definition init :: "real \<Rightarrow> real \<Rightarrow> real \<Rightarrow> real \<Rightarrow> JosephsonJunction" where
  "init Ic_uA Rn_ohm C_pF Vn_uV =
     \<lparr> Ic = Ic_uA * (1 / 10 ^ 6),
       Rn = Rn_ohm,
       C = C_pF * (1 / 10 ^ 12),
       Vn = Vn_uV * (1 / 10 ^ 6),
       phi0 = 2068 / 10 ^ 18 \<rparr>"

subsection \<open>Errors\<close>

text \<open>
  The source raises nothing itself; the exceptions a call can end with are those of
  the numpy and scipy functions it calls.
  \<^item> \<open>ValueError\<close>: \<^verbatim>\<open>np.linspace\<close> with a negative number of samples;
  \<^item> \<open>ZeroDivisionError\<close>: \<^verbatim>\<open>np.arange\<close> with step 0, which divides the length of
    the interval by the step;
  \<^item> \<open>SolverError\<close>: whatever \<^verbatim>\<open>scipy.integrate.odeint\<close> raises.
\<close>

datatype error = ValueError | ZeroDivisionError | SolverError

subsection \<open>The numpy grid constructors\<close>

text \<open>
  Both constructors are modelled in exact arithmetic. numpy computes them in doubles:
  there the number of samples of \<^verbatim>\<open>np.arange\<close> is the ceiling of the rounded
  quotient, which can differ by one from the ceiling of the exact quotient, and
  neighbouring samples of either grid can round to the same double. Nothing below
  rests on the exact number or spacing of the samples of a non-empty grid. A grid too
  long to allocate is outside the model.
\<close>

text \<open>
  \<^verbatim>\<open>np.linspace(start, stop, num)\<close> with the default \<^verbatim>\<open>endpoint=True\<close>, as numpy
  computes it: \<^verbatim>\<open>div = num - 1\<close>, \<^verbatim>\<open>y = arange(0, num) * step + start\<close> with
  \<^verbatim>\<open>step = (stop - start) / div\<close> when \<^verbatim>\<open>div > 0\<close>, and the last sample overwritten
  with \<^verbatim>\<open>stop\<close> when \<^verbatim>\<open>num > 1\<close>.
\<close>

definition linspace :: "real \<Rightarrow> real \<Rightarrow> int \<Rightarrow> error + real list" where
  "linspace start stop num =
     (if num < 0 then Inl ValueError
      else
        let dv = num - 1;
            delta = stop - start;
            y = map (\<lambda>i. real i * (if 0 < dv then delta / of_int dv else delta) + start)
                  [0 ..< nat num]
        in Inr (if 1 < num then y[nat num - 1 := stop] else y))"

text \<open>
  \<^verbatim>\<open>np.arange(start, stop, step)\<close>: \<open>\<lceil>(stop - start) / step\<rceil>\<close> samples
  \<^verbatim>\<open>start + i * step\<close>, none when that number is not positive.
\<close>

definition arange :: "real \<Rightarrow> real \<Rightarrow> real \<Rightarrow> error + real list" where
  "arange start stop step =
     (if step = 0 then Inl ZeroDivisionError
      else Inr (map (\<lambda>i. start + real i * step) [0 ..< nat \<lceil>(stop - start) / step\<rceil>]))"

subsection \<open>The static characteristic\<close>

definition dc_characteristic :: "JosephsonJunction \<Rightarrow> real \<Rightarrow> real" where
  "dc_characteristic self V = (if \<bar>V\<bar> < Vn self then Ic self * sin 0 else 0)"

text \<open>
  The loop of \<^verbatim>\<open>iv_curve\<close> over \<^verbatim>\<open>enumerate(V)\<close>, writing \<^verbatim>\<open>I[i]\<close> in the array
  \<^verbatim>\<open>I\<close>.
\<close>

fun iv_loop :: "JosephsonJunction \<Rightarrow> (nat \<times> real) list \<Rightarrow> real list \<Rightarrow> real list" where
  "iv_loop self [] I = I"
| "iv_loop self ((i, v) # rest) I =
     iv_loop self rest
       (if v < Vn self then I[i := dc_characteristic self v + v / Rn self]
        else I[i := v / Rn self])"

definition zeros_like :: "real list \<Rightarrow> real list" where
  "zeros_like V = replicate (length V) 0"

definition iv_curve ::
  "JosephsonJunction \<Rightarrow> real \<times> real \<times> int \<Rightarrow> error + (real list \<times> real list)" where
  "iv_curve self V_range =
     (case V_range of (start, stop, num) \<Rightarrow>
        (case linspace start stop num of
           Inl e \<Rightarrow> Inl e
         | Inr V \<Rightarrow> Inr (V, iv_loop self (enumerate 0 V) (zeros_like V))))"

subsection \<open>The phase dynamics\<close>

text \<open>
  The right-hand side \<^verbatim>\<open>dphi_dt(phi, t)\<close> of the phase equation, local to
  \<^verbatim>\<open>phase_dynamics\<close>. It does not use its second argument, which is a time when the
  solver calls it and the whole time array when the voltage is computed.
\<close>

definition dphi_dt :: "JosephsonJunction \<Rightarrow> real \<Rightarrow> real \<Rightarrow> 'a \<Rightarrow> real" where
  "dphi_dt self I_bias phi t =
     2 * pi / phi0 self * (I_bias * Rn self - Ic self * Rn self * sin phi)"

text \<open>
  \<^verbatim>\<open>scipy.integrate.odeint(func, y0, t)\<close> is not part of the repository: the solver is
  a parameter of the model. It takes the right-hand side, the initial value and the
  time grid, and returns an array with one row per time and one column per component
  of the state, or raises.
\<close>

type_synonym solver = "(real \<Rightarrow> real \<Rightarrow> real) \<Rightarrow> real \<Rightarrow> real list \<Rightarrow> error + real list list"

text \<open>\<^verbatim>\<open>phi.T[0]\<close>: the first column of the array of rows.\<close>

definition column0 :: "real list list \<Rightarrow> real list" where
  "column0 phi = map (\<lambda>row. row ! 0) phi"

definition phase_dynamics ::
  "solver \<Rightarrow> JosephsonJunction \<Rightarrow> real \<Rightarrow> real \<Rightarrow> real \<Rightarrow>
     error + (real list \<times> real list list \<times> real list)" where
  "phase_dynamics odeint self I_bias t_max dt =
     (case arange 0 t_max dt of
        Inl e \<Rightarrow> Inl e
      | Inr t \<Rightarrow>
          (case odeint (dphi_dt self I_bias) 0 t of
             Inl e \<Rightarrow> Inl e
           | Inr phi \<Rightarrow>
               Inr (t, phi,
                    map (\<lambda>p. phi0 self / (2 * pi) * dphi_dt self I_bias p t) (column0 phi))))"

text \<open>
  What \<^verbatim>\<open>odeint\<close> is relied on for: it returns an array of shape
  \<^verbatim>\<open>(len(t), len(y0))\<close>, here one column. On an empty grid that is the empty array;
  on a non-empty grid that is monotonically increasing or decreasing, the initial
  value is in the first row.
\<close>

definition odeint_contract :: "solver \<Rightarrow> bool" where
  "odeint_contract odeint \<longleftrightarrow>
     (\<forall>f y0. odeint f y0 [] = Inr []) \<and>
     (\<forall>f y0 t. t \<noteq> [] \<and> (sorted t \<or> sorted (rev t)) \<longrightarrow>
        (\<exists>phi. odeint f y0 t = Inr phi \<and> length phi = length t \<and>
               (\<forall>row \<in> set phi. length row = 1) \<and> phi ! 0 = [y0]))"

text \<open>
  A solver to instantiate the parameter with: the explicit Euler method on the grid.
  It stands for \<^verbatim>\<open>odeint\<close> only where a concrete solver is needed.
\<close>

fun euler :: "(real \<Rightarrow> real \<Rightarrow> real) \<Rightarrow> real \<Rightarrow> real list \<Rightarrow> real list list" where
  "euler f y [] = []"
| "euler f y [t] = [[y]]"
| "euler f y (t # t' # ts) = [y] # euler f (y + (t' - t) * f y t) (t' # ts)"

definition euler_odeint :: solver where
  "euler_odeint f y0 t = Inr (euler f y0 t)"

subsection \<open>The object and its methods\<close>

text \<open>
  A \<^verbatim>\<open>JosephsonJunction\<close> object is mutable in Python. A call of a method is
  modelled with the object before and after it; no method body assigns to an attribute
  of \<^verbatim>\<open>self\<close>, so the object comes back as it went in.
\<close>

datatype call =
    Dc_characteristic real
  | Iv_curve "real \<times> real \<times> int"
  | Phase_dynamics real real real

datatype outcome =
    Current real
  | Curve "error + (real list \<times> real list)"
  | Trajectory "error + (real list \<times> real list list \<times> real list)"

fun invoke :: "solver \<Rightarrow> JosephsonJunction \<Rightarrow> call \<Rightarrow> JosephsonJunction \<times> outcome" where
  "invoke odeint self (Dc_characteristic V) = (self, Current (dc_characteristic self V))"
| "invoke odeint self (Iv_curve V_range) = (self, Curve (iv_curve self V_range))"
| "invoke odeint self (Phase_dynamics I_bias t_max dt) =
     (self, Trajectory (phase_dynamics odeint self I_bias t_max dt))"

fun run :: "solver \<Rightarrow> JosephsonJunction \<Rightarrow> call list \<Rightarrow> JosephsonJunction \<times> outcome list" where
  "run odeint self [] = (self, [])"
| "run odeint self (c # cs) =
     (case invoke odeint self c of (self', r) \<Rightarrow>
        (case run odeint self' cs of (self'', rs) \<Rightarrow> (self'', r # rs)))"

text \<open>The value the loop of \<^verbatim>\<open>iv_curve\<close> stores for the sample \<open>v\<close>.\<close>

definition iv_sample :: "JosephsonJunction \<Rightarrow> real \<Rightarrow> real" where
  "iv_sample self v =
     (if v < Vn self then dc_characteristic self v + v / Rn self else v / Rn self)"

subsection \<open>The phase equation\<close>








section \<open>Properties\<close>

subsection \<open>Auxiliary facts\<close>

lemma jj_fields:
  "Ic (init a b c d) = a * (1 / 10 ^ 6)"
  "Rn (init a b c d) = b"
  "C (init a b c d) = c * (1 / 10 ^ 12)"
  "Vn (init a b c d) = d * (1 / 10 ^ 6)"
  "phi0 (init a b c d) = 2068 / 10 ^ 18"
  by (simp_all add: init_def)

lemma iv_loop_enumerate_gen:
  "length I = n + length xs \<Longrightarrow>
   iv_loop self (enumerate n xs) I = take n I @ map (iv_sample self) xs"
proof (induction xs arbitrary: n I)
  case Nil
  then show ?case by simp
next
  case (Cons x xs)
  let ?I' = "I[n := iv_sample self x]"
  have len: "length ?I' = Suc n + length xs" using Cons.prems by simp
  have "iv_loop self (enumerate n (x # xs)) I = iv_loop self (enumerate (Suc n) xs) ?I'"
    by (simp add: iv_sample_def)
  also have "\<dots> = take (Suc n) ?I' @ map (iv_sample self) xs"
    by (rule Cons.IH [OF len])
  also have "take (Suc n) ?I' = take n I @ [iv_sample self x]"
    using Cons.prems by (simp add: take_Suc_conv_app_nth)
  finally show ?case by simp
qed

lemma iv_loop_zeros:
  "iv_loop self (enumerate 0 V) (zeros_like V) = map (iv_sample self) V"
  using iv_loop_enumerate_gen [of "zeros_like V" 0 V self] by (simp add: zeros_like_def)

lemma iv_curve_Inr:
  "iv_curve self (start, stop, num) = Inr (V, I) \<Longrightarrow>
     linspace start stop num = Inr V \<and> I = map (iv_sample self) V"
  by (auto simp: iv_curve_def iv_loop_zeros split: sum.splits)

lemma iv_curve_of_linspace:
  "linspace start stop num = Inr V \<Longrightarrow>
     iv_curve self (start, stop, num) = Inr (V, map (iv_sample self) V)"
  by (simp add: iv_curve_def iv_loop_zeros)

lemma linspace_3: "linspace 0 5 3 = Inr [0, 5 / 2, 5]"
  by (simp add: linspace_def Let_def upt_rec numeral_3_eq_3 numeral_2_eq_2)

lemma iv_curve_3:
  "iv_curve (init 1 2 1 (1 / 1000)) (0, 5, 3) = Inr ([0, 5 / 2, 5], [0, 5 / 4, 5 / 2])"
  by (simp add: iv_curve_of_linspace [OF linspace_3] iv_sample_def dc_characteristic_def
      jj_fields)

lemma invoke_self: "fst (invoke odeint self c) = self"
  by (cases c) simp_all

lemma run_self: "fst (run odeint self cs) = self"
proof (induction cs)
  case Nil
  show ?case by simp
next
  case (Cons c cs)
  obtain r where r: "invoke odeint self c = (self, r)"
    using invoke_self [of odeint self c] by (cases "invoke odeint self c") simp
  obtain rs where rs: "run odeint self cs = (self, rs)"
    using Cons.IH by (cases "run odeint self cs") simp
  show ?case by (simp add: r rs)
qed

lemma voltage_closed_form:
  assumes "phi0 self \<noteq> 0"
  shows "phi0 self / (2 * pi) * dphi_dt self I_bias p t = Rn self * (I_bias - Ic self * sin p)"
  using assms by (simp add: dphi_dt_def algebra_simps)

lemma phase_dynamics_Inr:
  assumes "phase_dynamics odeint self I_bias t_max dt = Inr (t, phi, V)"
  shows "arange 0 t_max dt = Inr t" "odeint (dphi_dt self I_bias) 0 t = Inr phi"
    "V = map (\<lambda>p. phi0 self / (2 * pi) * dphi_dt self I_bias p t) (column0 phi)"
  using assms by (auto simp: phase_dynamics_def split: sum.splits)

lemma phase_dynamics_of_parts:
  assumes "arange 0 t_max dt = Inr t" "odeint (dphi_dt self I_bias) 0 t = Inr phi"
  shows "phase_dynamics odeint self I_bias t_max dt =
           Inr (t, phi, map (\<lambda>p. phi0 self / (2 * pi) * dphi_dt self I_bias p t) (column0 phi))"
  using assms by (simp add: phase_dynamics_def)

lemma arange_neg3: "arange 0 (- 3 / 10 ^ 11) (- 1 / 10 ^ 11) = Inr [0, - 1 / 10 ^ 11, - 2 / 10 ^ 11]"
  by (simp add: arange_def upt_rec numeral_3_eq_3 numeral_2_eq_2)

lemma arange_3: "arange 0 (3 / 10 ^ 11) (1 / 10 ^ 11) = Inr [0, 1 / 10 ^ 11, 2 / 10 ^ 11]"
  by (simp add: arange_def upt_rec numeral_3_eq_3 numeral_2_eq_2)

lemma arange_empty:
  assumes "(t_max \<le> 0 \<and> 0 < dt) \<or> (dt < 0 \<and> 0 \<le> t_max)"
  shows "arange 0 t_max dt = Inr []"
proof -
  have "t_max / dt \<le> 0"
    using assms by (auto simp: divide_le_0_iff)
  then have "\<lceil>t_max / dt\<rceil> \<le> 0" by (simp add: ceiling_le_iff)
  then show ?thesis using assms by (auto simp: arange_def)
qed

lemma euler_3:
  "euler_odeint f 0 [0, a, b] =
     Inr [[0], [a * f 0 0], [a * f 0 0 + (b - a) * f (a * f 0 0) a]]"
  by (simp add: euler_odeint_def)

lemma phase_dynamics_3:
  "\<exists>phi V. phase_dynamics euler_odeint (init 1 1 1 (1 / 1000)) (15 / 10 ^ 7)
       (3 / 10 ^ 11) (1 / 10 ^ 11) = Inr ([0, 1 / 10 ^ 11, 2 / 10 ^ 11], phi, V) \<and>
     length phi = 3 \<and>
     phi ! 1 ! 0 = 1 / 10 ^ 11 * dphi_dt (init 1 1 1 (1 / 1000)) (15 / 10 ^ 7) 0 (0::real)"
  unfolding phase_dynamics_of_parts [where odeint = euler_odeint, OF arange_3 euler_3]
  by simp

lemma euler_length: "length (euler f y t) = length t"
  by (induction f y t rule: euler.induct) simp_all

lemma euler_rows: "row \<in> set (euler f y t) \<Longrightarrow> length row = 1"
  by (induction f y t rule: euler.induct) auto

lemma euler_first: "t \<noteq> [] \<Longrightarrow> euler f y t ! 0 = [y]"
  by (induction f y t rule: euler.induct) simp_all

lemma euler_odeint_contract: "odeint_contract euler_odeint"
  unfolding odeint_contract_def euler_odeint_def
  by (auto simp: euler_length euler_rows euler_first)

lemma euler_zero_3:
  "euler_odeint (dphi_dt (init 1 1 1 (1 / 1000)) 0) 0 [0, - 1 / 10 ^ 11, - 2 / 10 ^ 11]
     = Inr [[0], [0], [0]]"
  by (simp add: euler_odeint_def dphi_dt_def)

lemma iv_loop_C: "iv_loop (self\<lparr>C := c\<rparr>) xs I = iv_loop self xs I"
  by (induction xs arbitrary: I) (auto simp: dc_characteristic_def)

lemma iv_curve_C: "iv_curve (self\<lparr>C := c\<rparr>) V_range = iv_curve self V_range"
  by (simp add: iv_curve_def iv_loop_C split: prod.splits sum.splits)

lemma dphi_dt_C: "dphi_dt (self\<lparr>C := c\<rparr>) I_bias = dphi_dt self I_bias"
  by (intro ext) (simp add: dphi_dt_def)

lemma phase_dynamics_C:
  "phase_dynamics odeint (self\<lparr>C := c\<rparr>) I_bias t_max dt = phase_dynamics odeint self I_bias t_max dt"
  by (simp add: phase_dynamics_def dphi_dt_C split: sum.splits)

lemma init_C: "init a b c1 d = (init a b c2 d)\<lparr>C := c1 * (1 / 10 ^ 12)\<rparr>"
  by (simp add: init_def)

subsection \<open>Solutions of the phase equation\<close>























subsection \<open>Runs of the phase dynamics against the exact solution\<close>

















subsection \<open>The two closed-form solutions\<close>













subsection \<open>The static characteristic\<close>

text \<open>
  Claim C4. For every voltage \<open>V\<close>, \<^verbatim>\<open>dc_characteristic\<close> returns 0: below the
  threshold (\<open>\<bar>V\<bar> < Vn\<close>) it returns \<open>Ic * sin 0\<close>, which is 0, and at or above the
  threshold it returns the literal 0.
\<close>

theorem dc_characteristic_always_zero: "dc_characteristic self V = 0"
  unfolding dc_characteristic_def by simp

text \<open>
  Claim C3. In the curve returned by \<^verbatim>\<open>iv_curve\<close>, every sample whose voltage
  \<open>v\<close> is at least the noise voltage has the current \<open>v / Rn\<close>: the supercurrent term
  contributes nothing.
\<close>

theorem iv_curve_resistive_above_noise:
  assumes "iv_curve self (start, stop, num) = Inr (V, I)"
    and "i < length V" and "Vn self \<le> V ! i"
  shows "I ! i = V ! i / Rn self"
proof -
  have "I = map (iv_sample self) V" using assms(1) by (simp add: iv_curve_Inr)
  then have "I ! i = iv_sample self (V ! i)" using assms(2) by simp
  also have "\<dots> = V ! i / Rn self" using assms(3) by (simp add: iv_sample_def)
  finally show ?thesis .
qed

theorem iv_curve_resistive_above_noise_witness:
  "iv_curve (init 1 2 1 (1 / 1000)) (0, 5, 3) = Inr ([0, 5 / 2, 5], [0, 5 / 4, 5 / 2]) \<and>
   (1::nat) < length [0, 5 / 2, 5 :: real] \<and>
   Vn (init 1 2 1 (1 / 1000)) \<le> [0, 5 / 2, 5] ! 1 \<and>
   [0, 5 / 4, 5 / 2 :: real] ! 1 = [0, 5 / 2, 5] ! 1 / Rn (init 1 2 1 (1 / 1000))"
  using iv_curve_resistive_above_noise [OF iv_curve_3, of 1]
  by (simp add: iv_curve_3 jj_fields)

subsection \<open>The parameters\<close>

text \<open>
  Claim C8. The constructor stores the critical current times \<^verbatim>\<open>1e-6\<close>, the normal
  resistance unchanged, the capacitance times \<^verbatim>\<open>1e-12\<close>, the noise voltage times
  \<^verbatim>\<open>1e-6\<close> and the flux quantum \<^verbatim>\<open>2.068e-15\<close>; after any sequence of method calls
  the object still holds these values.
\<close>

theorem fields_converted_and_kept:
  "fst (run odeint (init Ic_uA Rn_ohm C_pF Vn_uV) calls) =
     \<lparr> Ic = Ic_uA * (1 / 10 ^ 6), Rn = Rn_ohm, C = C_pF * (1 / 10 ^ 12),
       Vn = Vn_uV * (1 / 10 ^ 6), phi0 = 2068 / 10 ^ 18 \<rparr>"
  by (simp only: run_self init_def)

text \<open>
  Claim C10. Two junctions constructed with the same critical current, normal
  resistance and noise voltage and different capacitances give the same results from
  \<^verbatim>\<open>iv_curve\<close> and from \<^verbatim>\<open>phase_dynamics\<close>; and overwriting the capacitance of any
  junction changes no result: the field is stored and never read.
\<close>

theorem capacitance_unused:
  "iv_curve (init Ic_uA Rn_ohm C_pF Vn_uV) V_range =
     iv_curve (init Ic_uA Rn_ohm C_pF' Vn_uV) V_range \<and>
   phase_dynamics odeint (init Ic_uA Rn_ohm C_pF Vn_uV) I_bias t_max dt =
     phase_dynamics odeint (init Ic_uA Rn_ohm C_pF' Vn_uV) I_bias t_max dt \<and>
   iv_curve (self\<lparr>C := c\<rparr>) V_range = iv_curve self V_range \<and>
   phase_dynamics odeint (self\<lparr>C := c\<rparr>) I_bias t_max dt =
     phase_dynamics odeint self I_bias t_max dt"
  by (simp only: init_C [of Ic_uA Rn_ohm C_pF Vn_uV C_pF'] iv_curve_C phase_dynamics_C)

subsection \<open>The phase dynamics\<close>

text \<open>
  Claim C2. When \<^verbatim>\<open>phase_dynamics\<close> returns, the voltage array has one sample per
  row of the phase array, and the voltage at each index \<open>i\<close> is the right-hand side of
  the phase equation at the phase of that index, \<open>phi ! i ! 0\<close>, scaled by
  \<open>phi0 / 2\<pi>\<close>: \<open>(phi0 / 2\<pi>) * (2\<pi> / phi0) * (I_bias * Rn - Ic * Rn * sin phase)\<close>,
  which is \<open>Rn * (I_bias - Ic * sin phase)\<close>. It is computed from the phase of the same
  index alone, not from differences of neighbouring phases. The flux quantum of a
  constructed junction is not 0.
\<close>

theorem voltage_closed_form_at_phase:
  assumes "phase_dynamics odeint self I_bias t_max dt = Inr (t, phi, V)"
    and "phi0 self \<noteq> 0"
  shows "length V = length phi \<and>
         (\<forall>i < length V.
            V ! i = phi0 self / (2 * pi) *
                      (2 * pi / phi0 self *
                         (I_bias * Rn self - Ic self * Rn self * sin (phi ! i ! 0))) \<and>
            V ! i = Rn self * (I_bias - Ic self * sin (phi ! i ! 0)))"
proof -
  have V: "V = map (\<lambda>p. phi0 self / (2 * pi) * dphi_dt self I_bias p t) (column0 phi)"
    using assms(1) by (rule phase_dynamics_Inr)
  have len: "length V = length phi" unfolding V by (simp add: column0_def)
  have "V ! i = phi0 self / (2 * pi) * dphi_dt self I_bias (phi ! i ! 0) t"
    if "i < length V" for i
    using that len unfolding V by (simp add: column0_def)
  then show ?thesis
    using len voltage_closed_form [OF assms(2), of I_bias _ t]
    by (simp add: dphi_dt_def)
qed

theorem voltage_closed_form_at_phase_witness:
  "\<exists>t phi V. phase_dynamics euler_odeint (init 1 1 1 (1 / 1000)) (15 / 10 ^ 7)
       (3 / 10 ^ 11) (1 / 10 ^ 11) = Inr (t, phi, V) \<and>
     phi0 (init 1 1 1 (1 / 1000)) \<noteq> 0 \<and> length V = 3 \<and>
     phi ! 1 ! 0 = 1 / 10 ^ 11 * dphi_dt (init 1 1 1 (1 / 1000)) (15 / 10 ^ 7) 0 (0::real) \<and>
     0 < phi ! 1 ! 0 \<and>
     V ! 1 = Rn (init 1 1 1 (1 / 1000)) *
               (15 / 10 ^ 7 - Ic (init 1 1 1 (1 / 1000)) * sin (phi ! 1 ! 0))"
proof -
  obtain phi V where
    run: "phase_dynamics euler_odeint (init 1 1 1 (1 / 1000)) (15 / 10 ^ 7)
       (3 / 10 ^ 11) (1 / 10 ^ 11) = Inr ([0, 1 / 10 ^ 11, 2 / 10 ^ 11], phi, V)"
    and len: "length phi = 3"
    and p1: "phi ! 1 ! 0 = 1 / 10 ^ 11 * dphi_dt (init 1 1 1 (1 / 1000)) (15 / 10 ^ 7) 0 (0::real)"
    using phase_dynamics_3 by blast
  have p0: "phi0 (init 1 1 1 (1 / 1000)) \<noteq> 0" by (simp add: jj_fields)
  note main = voltage_closed_form_at_phase [OF run p0]
  have lenV: "length V = 3" using main len by simp
  then have i: "1 < length V" by simp
  have "V ! 1 = Rn (init 1 1 1 (1 / 1000)) *
               (15 / 10 ^ 7 - Ic (init 1 1 1 (1 / 1000)) * sin (phi ! 1 ! 0))"
    using main [THEN conjunct2, rule_format, OF i, THEN conjunct2] .
  moreover have "0 < phi ! 1 ! 0"
    unfolding p1 by (simp add: dphi_dt_def jj_fields)
  ultimately show ?thesis using run p0 lenV p1 by blast
qed

text \<open>
  Claim C6 says that a call with \<open>dt \<le> 0\<close> or \<open>t_max \<le> 0\<close> fails. The source
  checks neither: with a negative step and a negative duration \<^verbatim>\<open>np.arange\<close>
  builds a non-empty decreasing grid, which \<^verbatim>\<open>odeint\<close> accepts as it accepts an
  increasing one, and the call returns a trajectory on it. Here the bias current is 0,
  so that the phase and the voltage stay 0.
\<close>

theorem negative_step_returns_trajectory:
  "(- 1 / 10 ^ 11 :: real) \<le> 0 \<and> (- 3 / 10 ^ 11 :: real) \<le> 0 \<and>
   phase_dynamics euler_odeint (init 1 1 1 (1 / 1000)) 0 (- 3 / 10 ^ 11) (- 1 / 10 ^ 11)
     = Inr ([0, - 1 / 10 ^ 11, - 2 / 10 ^ 11], [[0], [0], [0]], [0, 0, 0])"
proof -
  have "phase_dynamics euler_odeint (init 1 1 1 (1 / 1000)) 0 (- 3 / 10 ^ 11) (- 1 / 10 ^ 11)
     = Inr ([0, - 1 / 10 ^ 11, - 2 / 10 ^ 11], [[0], [0], [0]], [0, 0, 0])"
    unfolding phase_dynamics_of_parts [where odeint = euler_odeint, OF arange_neg3 euler_zero_3]
    by (simp add: column0_def dphi_dt_def)
  then show ?thesis by simp
qed

text \<open>
  Claim C6, as the code has it. \<^verbatim>\<open>phase_dynamics\<close> validates nothing and has no
  error of its own. With \<open>dt = 0\<close> the call fails in \<^verbatim>\<open>np.arange\<close> with a
  \<open>ZeroDivisionError\<close>. With \<open>t_max \<le> 0 < dt\<close>, or with \<open>dt < 0 \<le> t_max\<close>, the grid
  is empty and the call returns, without an error, a trajectory of three empty arrays
  (for a solver that keeps the contract of \<^verbatim>\<open>odeint\<close>). With \<open>dt < 0\<close> and
  \<open>t_max < 0\<close> it can return a trajectory over negative times, as shown above.
\<close>

theorem phase_dynamics_unvalidated:
  "(dt = 0 \<longrightarrow> phase_dynamics odeint self I_bias t_max dt = Inl ZeroDivisionError) \<and>
   (((t_max \<le> 0 \<and> 0 < dt) \<or> (dt < 0 \<and> 0 \<le> t_max)) \<and> odeint_contract odeint \<longrightarrow>
      phase_dynamics odeint self I_bias t_max dt = Inr ([], [], []))"
proof (intro conjI impI)
  assume "dt = 0"
  then show "phase_dynamics odeint self I_bias t_max dt = Inl ZeroDivisionError"
    by (simp add: phase_dynamics_def arange_def)
next
  assume a: "((t_max \<le> 0 \<and> 0 < dt) \<or> (dt < 0 \<and> 0 \<le> t_max)) \<and> odeint_contract odeint"
  then have ar: "arange 0 t_max dt = Inr []" by (intro arange_empty) simp
  have od: "odeint (dphi_dt self I_bias) 0 [] = Inr []"
    using a unfolding odeint_contract_def by blast
  show "phase_dynamics odeint self I_bias t_max dt = Inr ([], [], [])"
    unfolding phase_dynamics_of_parts [where odeint = odeint, OF ar od]
    by (simp add: column0_def)
qed

theorem phase_dynamics_unvalidated_witness:
  "phase_dynamics euler_odeint (init 1 1 1 (1 / 1000)) (15 / 10 ^ 7) (100 / 10 ^ 9) 0
     = Inl ZeroDivisionError \<and>
   (- 100 / 10 ^ 9 :: real) \<le> 0 \<and> (0 :: real) < 1 / 10 ^ 11 \<and> odeint_contract euler_odeint \<and>
   phase_dynamics euler_odeint (init 1 1 1 (1 / 1000)) (15 / 10 ^ 7) (- 100 / 10 ^ 9) (1 / 10 ^ 11)
     = Inr ([], [], [])"
proof -
  have z: "phase_dynamics euler_odeint (init 1 1 1 (1 / 1000)) (15 / 10 ^ 7) (100 / 10 ^ 9) 0
     = Inl ZeroDivisionError"
    using phase_dynamics_unvalidated [of 0 euler_odeint "init 1 1 1 (1 / 1000)" "15 / 10 ^ 7" "100 / 10 ^ 9"]
    by simp
  have a: "(- 100 / 10 ^ 9 :: real) \<le> 0" and b: "(0 :: real) < 1 / 10 ^ 11" by simp_all
  have "phase_dynamics euler_odeint (init 1 1 1 (1 / 1000)) (15 / 10 ^ 7)
          (- 100 / 10 ^ 9) (1 / 10 ^ 11) = Inr ([], [], [])"
    using phase_dynamics_unvalidated [of "1 / 10 ^ 11" euler_odeint "init 1 1 1 (1 / 1000)" "15 / 10 ^ 7"
        "- 100 / 10 ^ 9"] a b euler_odeint_contract
    by blast
  then show ?thesis using z a b euler_odeint_contract by blast
qed

subsection \<open>The two regimes of the phase\<close>




end
